theory Spec2Isabelle
  imports Main "HOL-Library.Word"
begin

section \<open>Python values\<close>

text \<open>
  The handlers of \<^verbatim>\<open>app.py\<close> work on dynamically typed values: the parsed JSON
  body of a request, the claims returned by \<^verbatim>\<open>decode\<close>, the columns of a
  \<^verbatim>\<open>User\<close> row. They are modelled by one datatype. A string is a list of
  code points below 256; a dict is an association list read with \<^const>\<open>map_of\<close>
  (keys of a Python dict are distinct, so at most one entry answers); JSON numbers
  with a fraction are left out.
\<close>

datatype pyval =
    PNone
  | PBool bool
  | PInt int
  | PStr string
  | PList "pyval list"
  | PDict "(string \<times> pyval) list"

text \<open>The exceptions that the modelled code can raise or let through.\<close>

datatype exn =
    TypeError
  | KeyError
  | UnicodeDecodeError
  | JWSError
  | OtherError string

text \<open>Truth value testing, as done by \<^verbatim>\<open>if x\<close> and \<^verbatim>\<open>x and y\<close>.\<close>

fun truthy :: "pyval \<Rightarrow> bool" where
  "truthy PNone = False"
| "truthy (PBool b) = b"
| "truthy (PInt i) = (i \<noteq> 0)"
| "truthy (PStr s) = (s \<noteq> [])"
| "truthy (PList xs) = (xs \<noteq> [])"
| "truthy (PDict d) = (d \<noteq> [])"

fun starts_with :: "string \<Rightarrow> string \<Rightarrow> bool" where
  "starts_with [] s = True"
| "starts_with (k # ks) [] = False"
| "starts_with (k # ks) (c # cs) = (k = c \<and> starts_with ks cs)"

fun is_substring :: "string \<Rightarrow> string \<Rightarrow> bool" where
  "is_substring k [] = (k = [])"
| "is_substring k (c # cs) = (starts_with k (c # cs) \<or> is_substring k cs)"

text \<open>
  \<^verbatim>\<open>k in x\<close> for a string \<open>k\<close>: key membership in a dict, element membership in a
  list, substring test in a string; \<^verbatim>\<open>None\<close>, booleans and integers are not
  iterable and raise \<^verbatim>\<open>TypeError\<close>.
\<close>

fun py_in :: "string \<Rightarrow> pyval \<Rightarrow> exn + bool" where
  "py_in k (PDict d) = Inr (k \<in> set (map fst d))"
| "py_in k (PList xs) = Inr (PStr k \<in> set xs)"
| "py_in k (PStr s) = Inr (is_substring k s)"
| "py_in k PNone = Inl TypeError"
| "py_in k (PBool b) = Inl TypeError"
| "py_in k (PInt i) = Inl TypeError"

text \<open>
  \<^verbatim>\<open>x[k]\<close> for a string \<open>k\<close>: a dict lookup (\<^verbatim>\<open>KeyError\<close> when the key is
  missing); lists and strings take integer indices only, the other values are not
  subscriptable: \<^verbatim>\<open>TypeError\<close>.
\<close>

fun py_getitem :: "pyval \<Rightarrow> string \<Rightarrow> exn + pyval" where
  "py_getitem (PDict d) k = (case map_of d k of Some v \<Rightarrow> Inr v | None \<Rightarrow> Inl KeyError)"
| "py_getitem (PList xs) k = Inl TypeError"
| "py_getitem (PStr s) k = Inl TypeError"
| "py_getitem PNone k = Inl TypeError"
| "py_getitem (PBool b) k = Inl TypeError"
| "py_getitem (PInt i) k = Inl TypeError"

text \<open>\<^verbatim>\<open>x and k in x\<close>: the membership test runs only when \<open>x\<close> is truthy.\<close>

definition and_in :: "pyval \<Rightarrow> string \<Rightarrow> exn + bool" where
  "and_in x k = (if truthy x then py_in k x else Inr False)"

subsection \<open>The builtin \<^verbatim>\<open>str\<close>\<close>

function str_nat :: "nat \<Rightarrow> string" where
  "str_nat n = (if n < 10 then [char_of (48 + n)]
                else str_nat (n div 10) @ [char_of (48 + n mod 10)])"
  by pat_completeness auto
termination
  by (relation "measure (\<lambda>n. n)") auto

declare str_nat.simps [simp del]

definition str_int :: "int \<Rightarrow> string" where
  "str_int i = (if i < 0 then CHR ''-'' # str_nat (nat (- i)) else str_nat (nat i))"

definition hex_digit :: "nat \<Rightarrow> char" where
  "hex_digit n = (if n < 10 then char_of (48 + n) else char_of (87 + n))"

text \<open>
  One character inside the \<^verbatim>\<open>repr\<close> of a string whose quote is \<open>q\<close>: the quote
  and the backslash are escaped, tab, newline and carriage return have their
  letters, the other non-printable code points are written \<^verbatim>\<open>\xhh\<close>.
\<close>

definition repr_char :: "char \<Rightarrow> char \<Rightarrow> string" where
  "repr_char q c =
     (let n = (of_char c :: nat) in
      if c = q \<or> n = 92 then [char_of (92 :: nat), c]
      else if n = 9 then [char_of (92 :: nat), CHR ''t'']
      else if n = 10 then [char_of (92 :: nat), CHR ''n'']
      else if n = 13 then [char_of (92 :: nat), CHR ''r'']
      else if n < 32 \<or> n = 127 \<or> (128 \<le> n \<and> n \<le> 160) \<or> n = 173
        then [char_of (92 :: nat), CHR ''x'', hex_digit (n div 16), hex_digit (n mod 16)]
      else [c])"

definition repr_str :: "string \<Rightarrow> string" where
  "repr_str s =
     (let q = (if char_of (39 :: nat) \<in> set s \<and> char_of (34 :: nat) \<notin> set s
               then char_of (34 :: nat) else char_of (39 :: nat))
      in q # concat (map (repr_char q) s) @ [q])"

fun join :: "string \<Rightarrow> string list \<Rightarrow> string" where
  "join sep [] = []"
| "join sep [x] = x"
| "join sep (x # y # ys) = x @ sep @ join sep (y # ys)"

primrec py_repr :: "pyval \<Rightarrow> string" where
  "py_repr PNone = ''None''"
| "py_repr (PBool b) = (if b then ''True'' else ''False'')"
| "py_repr (PInt i) = str_int i"
| "py_repr (PStr s) = repr_str s"
| "py_repr (PList xs) = ''['' @ join '', '' (map py_repr xs) @ '']''"
| "py_repr (PDict d) =
     ''{'' @ join '', '' (map (\<lambda>kv. repr_str (fst kv) @ '': '' @ snd kv) (map (map_prod id py_repr) d)) @ ''}''"

definition py_str :: "pyval \<Rightarrow> string" where
  "py_str v = (case v of PStr s \<Rightarrow> s | _ \<Rightarrow> py_repr v)"

section \<open>The libraries behind the imports\<close>

text \<open>
  \<^verbatim>\<open>app.py\<close> imports \<^verbatim>\<open>encode\<close> and \<^verbatim>\<open>decode\<close> from a module \<^verbatim>\<open>jwt\<close>
  and builds a passlib \<^verbatim>\<open>CryptContext\<close> for pbkdf2\_sha256. Neither is part of the
  file; both are parameters of the model. A call may return or raise.
  \<^verbatim>\<open>encrypt\<close> draws a fresh salt, which is its first argument here.
\<close>

record jwt =
  encode :: "pyval \<Rightarrow> exn + string"
  decode :: "string \<Rightarrow> exn + pyval"

record pwd_context =
  encrypt :: "nat \<Rightarrow> pyval \<Rightarrow> exn + string"
  verify :: "pyval \<Rightarrow> string \<Rightarrow> exn + bool"

section \<open>The User model\<close>

text \<open>
  A row of the table: the primary key and the four columns. The three public
  columns hold whatever Python value was assigned (\<^verbatim>\<open>None\<close> by default); the
  coercion a database engine applies to a column is not modelled.
\<close>

record user =
  id_pk :: int
  user_id :: pyval
  name :: pyval
  email :: pyval
  password_hash :: "string option"

definition json :: "user \<Rightarrow> pyval" where
  "json u = PDict [(''user_id'', user_id u), (''name'', name u), (''email'', email u)]"

text \<open>
  \<^verbatim>\<open>set_password\<close> clears the hash first; when \<^verbatim>\<open>encrypt\<close> raises, the cleared
  hash stays and the exception is the second component.
\<close>

definition set_password :: "pwd_context \<Rightarrow> nat \<Rightarrow> user \<Rightarrow> pyval \<Rightarrow> user \<times> exn option" where
  "set_password ctx salt u password =
     (let u0 = u\<lparr>password_hash := None\<rparr> in
      if password \<noteq> PNone then
        (case encrypt ctx salt password of
           Inl e \<Rightarrow> (u0, Some e)
         | Inr h \<Rightarrow> (u0\<lparr>password_hash := Some h\<rparr>, None))
      else (u0, None))"

definition verify_password :: "pwd_context \<Rightarrow> user \<Rightarrow> pyval \<Rightarrow> exn + bool" where
  "verify_password ctx u password =
     (case password_hash u of
        None \<Rightarrow> Inr False
      | Some h \<Rightarrow> verify ctx password h)"

text \<open>
  The two queries of the handlers, \<^verbatim>\<open>User.query.filter_by(email=v).first()\<close> and
  \<^verbatim>\<open>User.query.filter_by(user_id=v).first()\<close>, over the rows of the table in
  the order the database returns them. The comparison is equality of values
  (\<^verbatim>\<open>None\<close> matches an empty column, as the generated \<^verbatim>\<open>IS NULL\<close> does).
\<close>

definition first_by_email :: "pyval \<Rightarrow> user list \<Rightarrow> user option" where
  "first_by_email v store = find (\<lambda>u. email u = v) store"

definition first_by_user_id :: "pyval \<Rightarrow> user list \<Rightarrow> user option" where
  "first_by_user_id v store = find (\<lambda>u. user_id u = v) store"

section \<open>Requests and responses\<close>

text \<open>
  What a handler reads from the request: \<^verbatim>\<open>request.url\<close>,
  \<^verbatim>\<open>request.headers.get("token")\<close>, the value returned by
  \<^verbatim>\<open>request.get_json()\<close> (\<^verbatim>\<open>None\<close> when the body is not JSON) and the raw
  bytes \<^verbatim>\<open>request.data\<close>. The framework's parser that relates the last two is not
  modelled.
\<close>

record request =
  url :: string
  token_header :: "string option"
  get_json :: pyval
  data :: "8 word list"

record response =
  status_code :: nat
  body :: pyval

definition jsonify :: "pyval \<Rightarrow> response" where
  "jsonify v = \<lparr>status_code = 200, body = v\<rparr>"

text \<open>
  \<^verbatim>\<open>bytes.decode('UTF8')\<close> raises \<^verbatim>\<open>UnicodeDecodeError\<close> on a byte sequence that
  is not well-formed UTF-8 (no overlong forms, no surrogates, nothing above
  U+10FFFF). The error handlers decode the body for their log line.
\<close>

definition between :: "8 word \<Rightarrow> 8 word \<Rightarrow> 8 word \<Rightarrow> bool" where
  "between lo hi b = (lo \<le> b \<and> b \<le> hi)"

fun utf8_valid :: "8 word list \<Rightarrow> bool" where
  "utf8_valid [] = True"
| "utf8_valid (b # bs) =
     (if b \<le> 0x7F then utf8_valid bs
      else if between 0xC2 0xDF b then
        (case bs of
           b1 # r \<Rightarrow> between 0x80 0xBF b1 \<and> utf8_valid r
         | _ \<Rightarrow> False)
      else if between 0xE0 0xEF b then
        (case bs of
           b1 # b2 # r \<Rightarrow>
             between (if b = 0xE0 then 0xA0 else 0x80) (if b = 0xED then 0x9F else 0xBF) b1
             \<and> between 0x80 0xBF b2 \<and> utf8_valid r
         | _ \<Rightarrow> False)
      else if between 0xF0 0xF4 b then
        (case bs of
           b1 # b2 # b3 # r \<Rightarrow>
             between (if b = 0xF0 then 0x90 else 0x80) (if b = 0xF4 then 0x8F else 0xBF) b1
             \<and> between 0x80 0xBF b2 \<and> between 0x80 0xBF b3 \<and> utf8_valid r
         | _ \<Rightarrow> False)
      else False)"

definition unauthorized :: "string \<Rightarrow> request \<Rightarrow> exn + response" where
  "unauthorized error req =
     (if utf8_valid (data req)
      then Inr \<lparr>status_code = 401, body = PDict [(''message'', PStr (error @ '': '' @ url req))]\<rparr>
      else Inl UnicodeDecodeError)"

definition known_error :: "string \<Rightarrow> request \<Rightarrow> exn + response" where
  "known_error error req =
     (if utf8_valid (data req)
      then Inr \<lparr>status_code = 400, body = PDict [(''message'', PStr (error @ '': '' @ url req))]\<rparr>
      else Inl UnicodeDecodeError)"

section \<open>The handlers\<close>

definition validate_token :: "jwt \<Rightarrow> string option \<Rightarrow> exn + pyval" where
  "validate_token j token =
     (case token of
        None \<Rightarrow> Inr PNone
      | Some t \<Rightarrow>
          if t \<noteq> [] then
            (case decode j t of
               Inr claims \<Rightarrow> Inr claims
             | Inl e \<Rightarrow> if e = JWSError then Inr (PStr []) else Inl e)
          else Inr PNone)"

text \<open>
  The test of \<^verbatim>\<open>login\<close>:
  \<^verbatim>\<open>credentials and ("email" in credentials) and ("password" in credentials)\<close>.
\<close>

definition login_fields :: "pyval \<Rightarrow> exn + bool" where
  "login_fields credentials =
     (if truthy credentials then
        (case py_in ''email'' credentials of
           Inl e \<Rightarrow> Inl e
         | Inr b \<Rightarrow> if b then py_in ''password'' credentials else Inr False)
      else Inr False)"

definition login :: "pwd_context \<Rightarrow> jwt \<Rightarrow> user list \<Rightarrow> request \<Rightarrow> exn + response" where
  "login ctx j store req =
     (let credentials = get_json req in
      case login_fields credentials of
        Inl e \<Rightarrow> Inl e
      | Inr False \<Rightarrow>
          unauthorized ''Please provide a Json message with 'email' and 'password' fields.'' req
      | Inr True \<Rightarrow>
          (case py_getitem credentials ''email'' of
             Inl e \<Rightarrow> Inl e
           | Inr em \<Rightarrow>
               (case first_by_email em store of
                  None \<Rightarrow> unauthorized ''Access denied'' req
                | Some u \<Rightarrow>
                    (case py_getitem credentials ''password'' of
                       Inl e \<Rightarrow> Inl e
                     | Inr pw \<Rightarrow>
                         (case verify_password ctx u pw of
                            Inl e \<Rightarrow> Inl e
                          | Inr False \<Rightarrow> unauthorized ''Access denied'' req
                          | Inr True \<Rightarrow>
                              (case encode j (json u) of
                                 Inl e \<Rightarrow> Inl e
                               | Inr token \<Rightarrow> Inr (jsonify (PDict [(''token'', PStr token)]))))))))"

definition profile :: "jwt \<Rightarrow> user list \<Rightarrow> request \<Rightarrow> exn + response" where
  "profile j store req =
     (case validate_token j (token_header req) of
        Inl e \<Rightarrow> Inl e
      | Inr claims \<Rightarrow>
          (case and_in claims ''user_id'' of
             Inl e \<Rightarrow> Inl e
           | Inr False \<Rightarrow>
               unauthorized ''Please provide a token header that includes a user_id.'' req
           | Inr True \<Rightarrow>
               (case py_getitem claims ''user_id'' of
                  Inl e \<Rightarrow> Inl e
                | Inr uid \<Rightarrow>
                    (case first_by_user_id uid store of
                       Some u \<Rightarrow> Inr (jsonify (json u))
                     | None \<Rightarrow>
                         known_error (''Respondent ID '' @ py_str uid @ '' not found.'') req))))"

text \<open>
  \<^verbatim>\<open>user.name = ...; db.session.commit()\<close> writes the row with the primary key of
  the loaded user.
\<close>

definition commit_name :: "user \<Rightarrow> pyval \<Rightarrow> user list \<Rightarrow> user list" where
  "commit_name u v store = map (\<lambda>r. if id_pk r = id_pk u then r\<lparr>name := v\<rparr> else r) store"

definition profile_update :: "jwt \<Rightarrow> user list \<Rightarrow> request \<Rightarrow> user list \<times> (exn + response)" where
  "profile_update j store req =
     (case validate_token j (token_header req) of
        Inl e \<Rightarrow> (store, Inl e)
      | Inr claims \<Rightarrow>
          (let patch = get_json req in
           case and_in claims ''user_id'' of
             Inl e \<Rightarrow> (store, Inl e)
           | Inr False \<Rightarrow>
               (store, unauthorized ''Please provide a token header that includes a user_id.'' req)
           | Inr True \<Rightarrow>
               (case py_getitem claims ''user_id'' of
                  Inl e \<Rightarrow> (store, Inl e)
                | Inr uid \<Rightarrow>
                    (case first_by_user_id uid store of
                       Some u \<Rightarrow>
                         (case py_in ''name'' patch of
                            Inl e \<Rightarrow> (store, Inl e)
                          | Inr True \<Rightarrow>
                              (case py_getitem patch ''name'' of
                                 Inl e \<Rightarrow> (store, Inl e)
                               | Inr v \<Rightarrow>
                                   (commit_name u v store, Inr (jsonify (json (u\<lparr>name := v\<rparr>)))))
                          | Inr False \<Rightarrow> (store, Inr (jsonify (json u))))
                     | None \<Rightarrow>
                         (store,
                          known_error (''Respondent ID '' @ py_str uid @ '' not found.'') req)))))"

section \<open>Contracts of the libraries\<close>


text \<open>
  Modelled from the spec: the Password Hasher behind \<^verbatim>\<open>pwd_context\<close> (passlib,
  not part of \<^verbatim>\<open>app.py\<close>). Hashing a string returns a hash, whatever salt is
  drawn, and verifying the same string against that hash succeeds.
\<close>

definition hash_then_verify :: "pwd_context \<Rightarrow> bool" where
  \<comment> \<open>Modelled from the spec: the round trip of the absent password hasher.\<close>
  "hash_then_verify ctx =
     (\<forall>salt p. \<exists>h. encrypt ctx salt (PStr p) = Inr h \<and> verify ctx (PStr p) h = Inr True)"

section \<open>Test doubles and sample data\<close>

text \<open>
  Stand-ins for the two libraries, used only to run the handlers on concrete
  requests: a hasher that keeps the password behind a run of salt characters, and
  a codec that knows two tokens and rejects every other string.
\<close>

definition stub_pwd :: pwd_context where
  "stub_pwd =
     \<lparr>encrypt = (\<lambda>salt p. case p of
                   PStr s \<Rightarrow> Inr (replicate salt (CHR ''s'') @ CHR ''$'' # s)
                 | _ \<Rightarrow> Inl TypeError),
      verify = (\<lambda>p h. case p of
                   PStr s \<Rightarrow> Inr (dropWhile (\<lambda>c. c = CHR ''s'') h = CHR ''$'' # s)
                 | _ \<Rightarrow> Inl TypeError)\<rparr>"

text \<open>
  The first row that \<^verbatim>\<open>create_users\<close> inserts, with the password
  \<^verbatim>\<open>password\<close> hashed by the stand-in, and a row built by \<^verbatim>\<open>User(...)\<close> on
  which \<^verbatim>\<open>set_password\<close> was never called.
\<close>

definition nick :: user where
  "nick = \<lparr>id_pk = 1, user_id = PStr ''101'', name = PStr ''Nick Gravgaard'',
            email = PStr ''nick.gravgaard@example.com'',
            password_hash = Some ''ss$password''\<rparr>"

definition newcomer :: user where
  "newcomer = \<lparr>id_pk = 2, user_id = PStr ''111'', name = PStr ''Pat New'',
             email = PStr ''pat.new@example.com'',
             password_hash = None\<rparr>"

definition demo_store :: "user list" where
  "demo_store = [nick, newcomer]"

definition stub_jwt :: jwt where
  "stub_jwt =
     \<lparr>encode = (\<lambda>c. if c = json nick then Inr ''token-101'' else Inr ''token-other''),
      decode = (\<lambda>t. if t = ''token-101'' then Inr (json nick)
                    else if t = ''token-999'' then Inr (PDict [(''user_id'', PStr ''999'')])
                    else if t = ''token-anon'' then Inr (PDict [(''name'', PStr ''Nobody'')])
                    else Inl JWSError)\<rparr>"

text \<open>
  Sample requests. The raw body is the text whose parse \<^verbatim>\<open>get_json\<close> returns;
  a \<^verbatim>\<open>GET\<close> request has an empty body.
\<close>

definition ascii :: "string \<Rightarrow> 8 word list" where
  "ascii s = map (\<lambda>c. of_nat (of_char c)) s"

definition credentials :: "string \<Rightarrow> string \<Rightarrow> pyval" where
  "credentials e p = PDict [(''email'', PStr e), (''password'', PStr p)]"

definition login_request :: "string \<Rightarrow> string \<Rightarrow> string \<Rightarrow> request" where
  \<open>login_request u e p =
     \<lparr>url = u, token_header = None, get_json = credentials e p,
      data = ascii (''{"email": "'' @ e @ ''", "password": "'' @ p @ ''"}'')\<rparr>\<close>

definition profile_request :: "string option \<Rightarrow> string \<Rightarrow> pyval \<Rightarrow> request" where
  "profile_request t raw parsed =
     \<lparr>url = ''http://localhost:5003/profile'', token_header = t, get_json = parsed,
      data = ascii raw\<rparr>"


definition rename_patch :: pyval where
  "rename_patch = PDict [(''email'', PStr ''other@example.com''), (''name'', PStr ''Nick G.'')]"


definition other_patch :: pyval where
  "other_patch = PDict [(''email'', PStr ''other@example.com'')]"

definition name_list_text :: string where
  \<open>name_list_text = ''["name"]''\<close>

text \<open>The two messages of the 401 responses that are not \<^verbatim>\<open>Access denied\<close>.\<close>

definition fields_message :: string where
  "fields_message = ''Please provide a Json message with 'email' and 'password' fields.''"

definition token_message :: string where
  "token_message = ''Please provide a token header that includes a user_id.''"

section \<open>Token validation\<close>

lemma validate_token_raises_iff:
  "validate_token j token = Inl e \<longleftrightarrow>
     (\<exists>t. token = Some t \<and> t \<noteq> [] \<and> decode j t = Inl e \<and> e \<noteq> JWSError)"
  by (auto simp: validate_token_def split: option.splits sum.splits if_splits)



section \<open>Passwords\<close>

lemma login_ok_user:
  assumes "login ctx j store req = Inr r" and "status_code r = 200"
  shows "\<exists>em pw u h t. py_getitem (get_json req) ''email'' = Inr em
            \<and> py_getitem (get_json req) ''password'' = Inr pw
            \<and> first_by_email em store = Some u
            \<and> password_hash u = Some h \<and> verify ctx pw h = Inr True
            \<and> encode j (json u) = Inr t
            \<and> r = jsonify (PDict [(''token'', PStr t)])"
  using assms
  by (auto simp: login_def Let_def unauthorized_def verify_password_def jsonify_def
           split: sum.splits bool.splits option.splits if_splits)

text \<open>
  Claim C6. Verifying any password against a row whose \<^verbatim>\<open>password_hash\<close> is null
  returns \<^verbatim>\<open>False\<close> without calling the hasher, so it cannot raise; and a login
  request whose email selects such a row never gets the 200 response that
  carries a token.
\<close>

theorem null_hash_never_verifies:
  assumes "password_hash u = None"
  shows "verify_password ctx u p = Inr False
       \<and> (first_by_email em store = Some u \<longrightarrow>
            py_getitem (get_json req) ''email'' = Inr em \<longrightarrow>
            (\<forall>r. login ctx j store req = Inr r \<longrightarrow> status_code r \<noteq> 200))"
proof -
  have v: "verify_password ctx u p = Inr False" for p
    using assms by (simp add: verify_password_def)
  have "status_code r \<noteq> 200"
    if "first_by_email em store = Some u" "py_getitem (get_json req) ''email'' = Inr em"
       "login ctx j store req = Inr r" for r
  proof
    assume "status_code r = 200"
    from login_ok_user [OF that(3) this] that(1,2) assms show False by auto
  qed
  with v show ?thesis by blast
qed

theorem null_hash_never_verifies_witness:
  "password_hash newcomer = None
   \<and> verify_password stub_pwd newcomer (PStr ''password'') = Inr False
   \<and> first_by_email (PStr ''pat.new@example.com'') demo_store = Some newcomer
   \<and> login stub_pwd stub_jwt demo_store
        (login_request ''http://localhost:5003/login'' ''pat.new@example.com'' ''password'')
      \<noteq> Inr \<lparr>status_code = 200, body = PDict [(''token'', PStr ''token-other'')]\<rparr>"
proof -
  have h: "password_hash newcomer = None" by (simp add: newcomer_def)
  have f: "first_by_email (PStr ''pat.new@example.com'') demo_store = Some newcomer"
    by (simp add: first_by_email_def demo_store_def nick_def newcomer_def)
  have g: "py_getitem (get_json (login_request ''http://localhost:5003/login'' ''pat.new@example.com'' ''password'')) ''email''
           = Inr (PStr ''pat.new@example.com'')"
    by (simp add: login_request_def credentials_def ascii_def)
  from null_hash_never_verifies [OF h, of stub_pwd "PStr ''password''"
      "PStr ''pat.new@example.com''" demo_store
      "login_request ''http://localhost:5003/login'' ''pat.new@example.com'' ''password''" stub_jwt] h f g
  show ?thesis by auto
qed

text \<open>
  Claim C7. Setting a string password and then verifying the same string
  succeeds, for every salt that \<^verbatim>\<open>encrypt\<close> may draw: \<^verbatim>\<open>set_password\<close> stores
  what the hasher returned, and \<^verbatim>\<open>verify_password\<close> checks against what is
  stored. The hasher itself is taken with its contract.
\<close>

theorem set_then_verify_password:
  assumes "hash_then_verify ctx"
  shows "snd (set_password ctx salt u (PStr p)) = None
       \<and> password_hash (fst (set_password ctx salt u (PStr p))) \<noteq> None
       \<and> verify_password ctx (fst (set_password ctx salt u (PStr p))) (PStr p) = Inr True"
proof -
  from assms obtain h where "encrypt ctx salt (PStr p) = Inr h" "verify ctx (PStr p) h = Inr True"
    unfolding hash_then_verify_def by blast
  then show ?thesis
    by (simp add: set_password_def verify_password_def)
qed

theorem set_then_verify_password_witness:
  "hash_then_verify stub_pwd
   \<and> verify_password stub_pwd (fst (set_password stub_pwd 2 newcomer (PStr ''password'')))
        (PStr ''password'') = Inr True"
proof -
  have h: "hash_then_verify stub_pwd"
    by (simp add: hash_then_verify_def stub_pwd_def dropWhile_append)
  from set_then_verify_password [OF h, of 2 newcomer "''password''"] h
  show ?thesis by simp
qed

section \<open>Login\<close>

lemma map_of_Some_key: "map_of c k = Some v \<Longrightarrow> k \<in> set (map fst c)"
  by (induction c) (auto split: if_splits)

lemma map_of_None_key: "map_of c k = None \<Longrightarrow> k \<notin> set (map fst c)"
  by (induction c) (auto split: if_splits)

lemma login_fields_dict:
  assumes "map_of c ''email'' = Some e" and "map_of c ''password'' = Some p"
  shows "login_fields (PDict c) = Inr True"
proof -
  from assms(1) have "c \<noteq> []" by auto
  moreover from assms have "''email'' \<in> set (map fst c)" "''password'' \<in> set (map fst c)"
    by (simp_all only: map_of_Some_key)
  ultimately show ?thesis by (simp add: login_fields_def)
qed




lemma demo_lookup_nick:
  "first_by_email (PStr ''nick.gravgaard@example.com'') demo_store = Some nick"
  by (simp add: first_by_email_def demo_store_def nick_def)





section \<open>Profile\<close>

lemma find_in_set: "find P xs = Some x \<Longrightarrow> x \<in> set xs"
  by (induction xs) (auto split: if_splits)



lemma token_with_user_id:
  assumes "token_header req = Some t" "t \<noteq> []" "decode j t = Inr (PDict c)"
      and "map_of c ''user_id'' = Some uid"
  shows "validate_token j (token_header req) = Inr (PDict c)"
    and "and_in (PDict c) ''user_id'' = Inr True"
    and "py_getitem (PDict c) ''user_id'' = Inr uid"
proof -
  show "validate_token j (token_header req) = Inr (PDict c)"
    using assms(1-3) by (simp add: validate_token_def)
  from assms(4) have "c \<noteq> []" by auto
  with map_of_Some_key [OF assms(4)] show "and_in (PDict c) ''user_id'' = Inr True"
    by (simp add: and_in_def)
  show "py_getitem (PDict c) ''user_id'' = Inr uid"
    using assms(4) by simp
qed

lemma profile_found:
  assumes "token_header req = Some t" "t \<noteq> []" "decode j t = Inr (PDict c)"
      and "map_of c ''user_id'' = Some uid"
      and "first_by_user_id uid store = Some u"
  shows "profile j store req = Inr (jsonify (json u))"
  using token_with_user_id [OF assms(1-4)] assms(4,5)
  by (simp add: profile_def)

lemma profile_update_found:
  assumes "token_header req = Some t" "t \<noteq> []" "decode j t = Inr (PDict c)"
      and "map_of c ''user_id'' = Some uid"
      and "first_by_user_id uid store = Some u"
  shows "profile_update j store req =
           (case py_in ''name'' (get_json req) of
              Inl e \<Rightarrow> (store, Inl e)
            | Inr True \<Rightarrow>
                (case py_getitem (get_json req) ''name'' of
                   Inl e \<Rightarrow> (store, Inl e)
                 | Inr v \<Rightarrow> (commit_name u v store, Inr (jsonify (json (u\<lparr>name := v\<rparr>)))))
            | Inr False \<Rightarrow> (store, Inr (jsonify (json u))))"
  using token_with_user_id [OF assms(1-4)] assms(4,5)
  by (simp add: profile_update_def Let_def)

text \<open>The error answers of the two profile handlers, for a body that is UTF-8.\<close>

lemma no_user_id_cases:
  assumes "token_header req = None \<or> token_header req = Some []
         \<or> (\<exists>t. token_header req = Some t \<and> decode j t = Inl JWSError)
         \<or> (\<exists>t c. token_header req = Some t \<and> decode j t = Inr (PDict c)
                  \<and> map_of c ''user_id'' = None)"
  shows "\<exists>claims. validate_token j (token_header req) = Inr claims
                \<and> and_in claims ''user_id'' = Inr False"
proof (cases "token_header req = None \<or> token_header req = Some []")
  case True
  then have "validate_token j (token_header req) = Inr PNone"
    by (auto simp: validate_token_def)
  then show ?thesis by (simp add: and_in_def)
next
  case False
  with assms obtain t where t: "token_header req = Some t" "t \<noteq> []"
    and d: "decode j t = Inl JWSError \<or> (\<exists>c. decode j t = Inr (PDict c) \<and> map_of c ''user_id'' = None)"
    by auto
  from d show ?thesis
  proof
    assume "decode j t = Inl JWSError"
    with t have "validate_token j (token_header req) = Inr (PStr [])"
      by (simp add: validate_token_def)
    then show ?thesis by (simp add: and_in_def)
  next
    assume "\<exists>c. decode j t = Inr (PDict c) \<and> map_of c ''user_id'' = None"
    then obtain c where c: "decode j t = Inr (PDict c)" "map_of c ''user_id'' = None" by blast
    with t have "validate_token j (token_header req) = Inr (PDict c)"
      by (simp add: validate_token_def)
    moreover from map_of_None_key [OF c(2)] have "and_in (PDict c) ''user_id'' = Inr False"
      by (simp add: and_in_def)
    ultimately show ?thesis by simp
  qed
qed

lemma profile_error_responses:
  assumes "utf8_valid (data req)"
  shows "(token_header req = None \<or> token_header req = Some []
           \<or> (\<exists>t. token_header req = Some t \<and> decode j t = Inl JWSError)
           \<or> (\<exists>t c. token_header req = Some t \<and> decode j t = Inr (PDict c)
                    \<and> map_of c ''user_id'' = None)
          \<longrightarrow> profile j store req =
                Inr \<lparr>status_code = 401,
                     body = PDict [(''message'', PStr (token_message @ '': '' @ url req))]\<rparr>
            \<and> profile_update j store req =
                (store, Inr \<lparr>status_code = 401,
                     body = PDict [(''message'', PStr (token_message @ '': '' @ url req))]\<rparr>))
       \<and> (\<forall>t c uid. token_header req = Some t \<longrightarrow> t \<noteq> [] \<longrightarrow> decode j t = Inr (PDict c) \<longrightarrow>
            map_of c ''user_id'' = Some uid \<longrightarrow> first_by_user_id uid store = None \<longrightarrow>
              profile j store req =
                Inr \<lparr>status_code = 400,
                     body = PDict [(''message'',
                       PStr (''Respondent ID '' @ py_str uid @ '' not found.: '' @ url req))]\<rparr>
            \<and> profile_update j store req =
                (store, Inr \<lparr>status_code = 400,
                     body = PDict [(''message'',
                       PStr (''Respondent ID '' @ py_str uid @ '' not found.: '' @ url req))]\<rparr>))"
proof (intro conjI impI allI)
  assume "token_header req = None \<or> token_header req = Some []
           \<or> (\<exists>t. token_header req = Some t \<and> decode j t = Inl JWSError)
           \<or> (\<exists>t c. token_header req = Some t \<and> decode j t = Inr (PDict c)
                    \<and> map_of c ''user_id'' = None)"
  from no_user_id_cases [OF this] obtain claims where
    c: "validate_token j (token_header req) = Inr claims" "and_in claims ''user_id'' = Inr False"
    by blast
  with assms show "profile j store req =
                Inr \<lparr>status_code = 401,
                     body = PDict [(''message'', PStr (token_message @ '': '' @ url req))]\<rparr>"
    by (simp add: profile_def unauthorized_def token_message_def)
  from c assms show "profile_update j store req =
                (store, Inr \<lparr>status_code = 401,
                     body = PDict [(''message'', PStr (token_message @ '': '' @ url req))]\<rparr>)"
    by (simp add: profile_update_def unauthorized_def token_message_def Let_def)
next
  fix t c uid
  assume a: "token_header req = Some t" "t \<noteq> []" "decode j t = Inr (PDict c)"
     "map_of c ''user_id'' = Some uid" "first_by_user_id uid store = None"
  note tk = token_with_user_id [OF a(1-4)]
  from tk a(4,5) assms show "profile j store req =
                Inr \<lparr>status_code = 400,
                     body = PDict [(''message'',
                       PStr (''Respondent ID '' @ py_str uid @ '' not found.: '' @ url req))]\<rparr>"
    by (simp add: profile_def known_error_def)
  from tk a(4,5) assms show "profile_update j store req =
                (store, Inr \<lparr>status_code = 400,
                     body = PDict [(''message'',
                       PStr (''Respondent ID '' @ py_str uid @ '' not found.: '' @ url req))]\<rparr>)"
    by (simp add: profile_update_def known_error_def Let_def)
qed

lemma demo_profile_errors:
  "profile stub_jwt demo_store (profile_request None [] PNone) =
     Inr \<lparr>status_code = 401,
          body = PDict [(''message'', PStr (token_message @ '': http://localhost:5003/profile''))]\<rparr>
   \<and> profile stub_jwt demo_store (profile_request (Some ''tampered'') [] PNone) =
     Inr \<lparr>status_code = 401,
          body = PDict [(''message'', PStr (token_message @ '': http://localhost:5003/profile''))]\<rparr>
   \<and> profile stub_jwt demo_store (profile_request (Some ''token-anon'') [] PNone) =
     Inr \<lparr>status_code = 401,
          body = PDict [(''message'', PStr (token_message @ '': http://localhost:5003/profile''))]\<rparr>
   \<and> profile stub_jwt demo_store (profile_request (Some ''token-999'') [] PNone) =
     Inr \<lparr>status_code = 400,
          body = PDict [(''message'',
            PStr ''Respondent ID 999 not found.: http://localhost:5003/profile'')]\<rparr>"
proof -
  have u: "utf8_valid (data (profile_request t [] PNone))" for t
    by (simp add: profile_request_def ascii_def)
  have a: "profile stub_jwt demo_store (profile_request None [] PNone) =
     Inr \<lparr>status_code = 401,
          body = PDict [(''message'', PStr (token_message @ '': http://localhost:5003/profile''))]\<rparr>"
    using profile_error_responses [OF u, of None stub_jwt demo_store]
    by (simp add: profile_request_def)
  have b: "profile stub_jwt demo_store (profile_request (Some ''tampered'') [] PNone) =
     Inr \<lparr>status_code = 401,
          body = PDict [(''message'', PStr (token_message @ '': http://localhost:5003/profile''))]\<rparr>"
    using profile_error_responses [OF u, of "Some ''tampered''" stub_jwt demo_store]
    by (simp add: profile_request_def stub_jwt_def)
  have c: "profile stub_jwt demo_store (profile_request (Some ''token-anon'') [] PNone) =
     Inr \<lparr>status_code = 401,
          body = PDict [(''message'', PStr (token_message @ '': http://localhost:5003/profile''))]\<rparr>"
    using profile_error_responses [OF u, of "Some ''token-anon''" stub_jwt demo_store]
    by (simp add: profile_request_def stub_jwt_def)
  have d: "profile stub_jwt demo_store (profile_request (Some ''token-999'') [] PNone) =
     Inr \<lparr>status_code = 400,
          body = PDict [(''message'',
            PStr ''Respondent ID 999 not found.: http://localhost:5003/profile'')]\<rparr>"
    using profile_error_responses [OF u, of "Some ''token-999''" stub_jwt demo_store]
    by (simp add: profile_request_def stub_jwt_def first_by_user_id_def demo_store_def
                  nick_def newcomer_def py_str_def)
  from a b c d show ?thesis by simp
qed

text \<open>
  Claim C5. A profile request without a usable token is to be answered with 401,
  and one whose token names an unknown subject with 400 and the message
  \<^verbatim>\<open>Respondent ID <id> not found.\<close>; \<open>profile_error_responses\<close> shows that the
  handlers do so when the raw body is well-formed UTF-8. The code misses the
  claim on the other bodies: \<^verbatim>\<open>unauthorized\<close> and \<^verbatim>\<open>known_error\<close> decode
  \<^verbatim>\<open>request.data\<close> for their log line before they build the response. For a
  request with no token header and the one-byte body \<^verbatim>\<open>FF\<close>, both handlers
  raise \<^verbatim>\<open>UnicodeDecodeError\<close> instead of returning 401.
\<close>

theorem profile_without_token_non_utf8_body:
  "profile j store
     \<lparr>url = ''http://localhost:5003/profile'', token_header = None, get_json = PNone,
      data = [0xFF]\<rparr> = Inl UnicodeDecodeError
   \<and> profile_update j store
     \<lparr>url = ''http://localhost:5003/profile'', token_header = None, get_json = PNone,
      data = [0xFF]\<rparr> = (store, Inl UnicodeDecodeError)"
  by (simp add: profile_def profile_update_def validate_token_def and_in_def unauthorized_def)

text \<open>
  Claim C10, amended. Take a \<^verbatim>\<open>POST /profile\<close> request whose token decodes to
  claims with a \<^verbatim>\<open>user_id\<close> that a row has. When the parsed body is null (no
  JSON body), a boolean or a number, the test \<^verbatim>\<open>"name" in json\<close> raises
  \<^verbatim>\<open>TypeError\<close>; when it is a list or a string that contains \<^verbatim>\<open>name\<close>, the
  read \<^verbatim>\<open>json["name"]\<close> raises \<^verbatim>\<open>TypeError\<close>; no response is built and the
  store is unchanged. When it is a list or a string that does not contain
  \<^verbatim>\<open>name\<close>, the handler returns the 200 projection.
\<close>

theorem profile_update_non_object_body:
  assumes "token_header req = Some t" "t \<noteq> []" "decode j t = Inr (PDict c)"
      and "map_of c ''user_id'' = Some uid"
      and "first_by_user_id uid store = Some u"
  shows "(get_json req = PNone \<or> (\<exists>b. get_json req = PBool b) \<or> (\<exists>i. get_json req = PInt i)
            \<longrightarrow> profile_update j store req = (store, Inl TypeError))
       \<and> (\<forall>xs. get_json req = PList xs \<longrightarrow>
            profile_update j store req =
              (store, if PStr ''name'' \<in> set xs then Inl TypeError
                      else Inr \<lparr>status_code = 200, body = json u\<rparr>))
       \<and> (\<forall>s. get_json req = PStr s \<longrightarrow>
            profile_update j store req =
              (store, if is_substring ''name'' s then Inl TypeError
                      else Inr \<lparr>status_code = 200, body = json u\<rparr>))"
  by (auto simp: profile_update_found [OF assms] jsonify_def)

lemma demo_token_nick: "decode stub_jwt ''token-101'' = Inr (PDict [(''user_id'', PStr ''101''),
    (''name'', PStr ''Nick Gravgaard''), (''email'', PStr ''nick.gravgaard@example.com'')])"
  by (simp add: stub_jwt_def json_def nick_def)

lemma demo_subject_nick: "first_by_user_id (PStr ''101'') demo_store = Some nick"
  by (simp add: first_by_user_id_def demo_store_def nick_def)

theorem profile_update_non_object_body_witness:
  "profile_update stub_jwt demo_store
     (profile_request (Some ''token-101'') [] PNone)
   = (demo_store, Inl TypeError)
   \<and> profile_update stub_jwt demo_store
     (profile_request (Some ''token-101'') name_list_text (PList [PStr ''name'']))
   = (demo_store, Inl TypeError)"
proof -
  have "profile_update stub_jwt demo_store
     (profile_request (Some ''token-101'') [] PNone)
   = (demo_store, Inl TypeError)"
    using profile_update_non_object_body [of
      "profile_request (Some ''token-101'') [] PNone"
      "''token-101''" stub_jwt _ "PStr ''101''" demo_store nick]
      demo_token_nick demo_subject_nick
    by (simp add: profile_request_def rename_patch_def other_patch_def)
  moreover have "profile_update stub_jwt demo_store
     (profile_request (Some ''token-101'') name_list_text (PList [PStr ''name'']))
   = (demo_store, Inl TypeError)"
    using profile_update_non_object_body [of
      "profile_request (Some ''token-101'') name_list_text (PList [PStr ''name''])"
      "''token-101''" stub_jwt _ "PStr ''101''" demo_store nick]
      demo_token_nick demo_subject_nick
    by (simp add: profile_request_def rename_patch_def other_patch_def)
  ultimately show ?thesis by simp
qed

text \<open>
  Claim C10, as stated, fails: a body that is JSON but not an object need not parse
  to null. For the empty array the test \<^verbatim>\<open>"name" in json\<close> is simply false, and
  the handler returns the 200 projection.
\<close>

theorem profile_update_empty_list_body_answers:
  "decode stub_jwt ''token-101'' = Inr (PDict [(''user_id'', PStr ''101''),
       (''name'', PStr ''Nick Gravgaard''), (''email'', PStr ''nick.gravgaard@example.com'')])
   \<and> first_by_user_id (PStr ''101'') demo_store = Some nick
   \<and> profile_update stub_jwt demo_store
        (profile_request (Some ''token-101'') ''[]'' (PList []))
      = (demo_store,
         Inr \<lparr>status_code = 200,
              body = PDict [(''user_id'', PStr ''101''), (''name'', PStr ''Nick Gravgaard''),
                            (''email'', PStr ''nick.gravgaard@example.com'')]\<rparr>)"
proof -
  have "profile_update stub_jwt demo_store
        (profile_request (Some ''token-101'') ''[]'' (PList []))
      = (demo_store, Inr (jsonify (json nick)))"
    using profile_update_found [of
      "profile_request (Some ''token-101'') ''[]'' (PList [])"
      "''token-101''" stub_jwt _ "PStr ''101''" demo_store nick]
      demo_token_nick demo_subject_nick
    by (simp add: profile_request_def rename_patch_def other_patch_def)
  then show ?thesis
    using demo_token_nick demo_subject_nick by (simp add: jsonify_def json_def nick_def)
qed

lemma profile_update_dict:
  assumes "token_header req = Some t" "t \<noteq> []" "decode j t = Inr (PDict c)"
      and "map_of c ''user_id'' = Some uid"
      and "first_by_user_id uid store = Some u"
      and "get_json req = PDict p"
  shows "profile_update j store req =
           (case map_of p ''name'' of
              Some v \<Rightarrow> (commit_name u v store, Inr (jsonify (json (u\<lparr>name := v\<rparr>))))
            | None \<Rightarrow> (store, Inr (jsonify (json u))))"
proof (cases "map_of p ''name''")
  case None
  with map_of_None_key [OF None] show ?thesis
    by (simp add: profile_update_found [OF assms(1-5)] assms(6))
next
  case (Some v)
  with map_of_Some_key [OF Some] show ?thesis
    by (simp add: profile_update_found [OF assms(1-5)] assms(6))
qed





lemma commit_name_member:
  "u \<in> set store \<Longrightarrow> u\<lparr>name := v\<rparr> \<in> set (commit_name u v store)"
  by (induction store) (auto simp: commit_name_def)

lemma first_by_user_id_member: "first_by_user_id uid store = Some u \<Longrightarrow> u \<in> set store"
  unfolding first_by_user_id_def by (rule find_in_set)

lemma first_by_email_member: "first_by_email em store = Some u \<Longrightarrow> u \<in> set store"
  unfolding first_by_email_def by (rule find_in_set)


lemma login_responses:
  assumes "login ctx j store req = Inr r"
  shows "(\<exists>u t. u \<in> set store \<and> encode j (json u) = Inr t
            \<and> r = \<lparr>status_code = 200, body = PDict [(''token'', PStr t)]\<rparr>)
       \<or> r = \<lparr>status_code = 401, body = PDict [(''message'', PStr (''Access denied: '' @ url req))]\<rparr>
       \<or> r = \<lparr>status_code = 401, body = PDict [(''message'', PStr (fields_message @ '': '' @ url req))]\<rparr>"
  using assms
  by (auto simp: login_def Let_def unauthorized_def jsonify_def fields_message_def
           split: sum.splits bool.splits option.splits if_splits
           dest: first_by_email_member)

lemma profile_responses:
  assumes "profile j store req = Inr r"
  shows "(\<exists>u. u \<in> set store \<and> r = \<lparr>status_code = 200, body = json u\<rparr>)
       \<or> r = \<lparr>status_code = 401, body = PDict [(''message'', PStr (token_message @ '': '' @ url req))]\<rparr>
       \<or> (\<exists>claims uid. validate_token j (token_header req) = Inr claims
             \<and> py_getitem claims ''user_id'' = Inr uid
             \<and> r = \<lparr>status_code = 400, body = PDict [(''message'',
                       PStr (''Respondent ID '' @ py_str uid @ '' not found.: '' @ url req))]\<rparr>)"
  using assms
  by (auto simp: profile_def unauthorized_def known_error_def jsonify_def token_message_def
           split: sum.splits bool.splits option.splits if_splits
           dest: first_by_user_id_member)

lemma profile_update_responses:
  assumes "profile_update j store req = (store', Inr r)"
  shows "(\<exists>u. u \<in> set store' \<and> r = \<lparr>status_code = 200, body = json u\<rparr>)
       \<or> r = \<lparr>status_code = 401, body = PDict [(''message'', PStr (token_message @ '': '' @ url req))]\<rparr>
       \<or> (\<exists>claims uid. validate_token j (token_header req) = Inr claims
             \<and> py_getitem claims ''user_id'' = Inr uid
             \<and> r = \<lparr>status_code = 400, body = PDict [(''message'',
                       PStr (''Respondent ID '' @ py_str uid @ '' not found.: '' @ url req))]\<rparr>)"
  using assms
  by (auto simp: profile_update_def Let_def unauthorized_def known_error_def jsonify_def
                 token_message_def
           split: sum.splits bool.splits option.splits if_splits
           dest: first_by_user_id_member commit_name_member)


lemma demo_login_nick:
  "login stub_pwd stub_jwt demo_store
     (login_request ''http://localhost:5003/login'' ''nick.gravgaard@example.com'' ''password'')
   = Inr \<lparr>status_code = 200, body = PDict [(''token'', PStr ''token-101'')]\<rparr>"
proof -
  have v: "verify_password stub_pwd nick (PStr ''password'') = Inr True"
    by (simp add: verify_password_def nick_def stub_pwd_def)
  have e: "encode stub_jwt (json nick) = Inr ''token-101''"
    by (simp add: stub_jwt_def)
  have l: "login_fields (credentials ''nick.gravgaard@example.com'' ''password'') = Inr True"
    unfolding credentials_def by (rule login_fields_dict) simp_all
  show ?thesis
    using v e l demo_lookup_nick
    by (simp add: login_def login_request_def credentials_def ascii_def jsonify_def)
qed

lemma demo_profile_nick:
  "profile stub_jwt demo_store
     (profile_request (Some ''token-101'') [] PNone)
   = Inr \<lparr>status_code = 200, body = json nick\<rparr>"
  using profile_found [of
      "profile_request (Some ''token-101'') [] PNone"
      "''token-101''" stub_jwt _ "PStr ''101''" demo_store nick]
    demo_token_nick demo_subject_nick
  by (simp add: profile_request_def rename_patch_def other_patch_def jsonify_def)

lemma demo_profile_update_nick:
  "profile_update stub_jwt demo_store
     (profile_request (Some ''token-101'') ''{}'' (PDict []))
   = (demo_store, Inr \<lparr>status_code = 200, body = json nick\<rparr>)"
  using profile_update_dict [of
      "profile_request (Some ''token-101'') ''{}'' (PDict [])"
      "''token-101''" stub_jwt _ "PStr ''101''" demo_store nick "[]"]
    demo_token_nick demo_subject_nick
  by (simp add: profile_request_def rename_patch_def other_patch_def jsonify_def)

text \<open>
  Claim C9. The projection of a row has exactly the fields \<^verbatim>\<open>user_id\<close>,
  \<^verbatim>\<open>name\<close> and \<^verbatim>\<open>email\<close>, and does not depend on the password hash. The
  token that \<^verbatim>\<open>login\<close> returns is \<^verbatim>\<open>encode\<close> applied to the projection of a
  row, a 200 response of the profile handlers is the projection of a row, and
  every other response is one message built from fixed text, the URL and the
  \<^verbatim>\<open>user_id\<close> of the claims.
\<close>

theorem responses_carry_public_fields_only:
  "json u = PDict [(''user_id'', user_id u), (''name'', name u), (''email'', email u)]
   \<and> json (u\<lparr>password_hash := h\<rparr>) = json u
   \<and> (\<forall>r. login ctx j store req = Inr r \<longrightarrow>
         (\<exists>u t. u \<in> set store \<and> encode j (json u) = Inr t
            \<and> r = \<lparr>status_code = 200, body = PDict [(''token'', PStr t)]\<rparr>)
       \<or> r = \<lparr>status_code = 401,
               body = PDict [(''message'', PStr (''Access denied: '' @ url req))]\<rparr>
       \<or> r = \<lparr>status_code = 401,
               body = PDict [(''message'', PStr (fields_message @ '': '' @ url req))]\<rparr>)
   \<and> (\<forall>r. profile j store req = Inr r \<longrightarrow>
         (\<exists>u. u \<in> set store \<and> r = \<lparr>status_code = 200, body = json u\<rparr>)
       \<or> r = \<lparr>status_code = 401,
               body = PDict [(''message'', PStr (token_message @ '': '' @ url req))]\<rparr>
       \<or> (\<exists>claims uid. validate_token j (token_header req) = Inr claims
             \<and> py_getitem claims ''user_id'' = Inr uid
             \<and> r = \<lparr>status_code = 400, body = PDict [(''message'',
                       PStr (''Respondent ID '' @ py_str uid @ '' not found.: '' @ url req))]\<rparr>))
   \<and> (\<forall>store' r. profile_update j store req = (store', Inr r) \<longrightarrow>
         (\<exists>u. u \<in> set store' \<and> r = \<lparr>status_code = 200, body = json u\<rparr>)
       \<or> r = \<lparr>status_code = 401,
               body = PDict [(''message'', PStr (token_message @ '': '' @ url req))]\<rparr>
       \<or> (\<exists>claims uid. validate_token j (token_header req) = Inr claims
             \<and> py_getitem claims ''user_id'' = Inr uid
             \<and> r = \<lparr>status_code = 400, body = PDict [(''message'',
                       PStr (''Respondent ID '' @ py_str uid @ '' not found.: '' @ url req))]\<rparr>))"
proof (intro conjI allI impI)
  show "json u = PDict [(''user_id'', user_id u), (''name'', name u), (''email'', email u)]"
    by (simp add: json_def)
  show "json (u\<lparr>password_hash := h\<rparr>) = json u"
    by (simp add: json_def)
qed (erule login_responses profile_responses profile_update_responses)+

theorem responses_carry_public_fields_only_witness:
  "login stub_pwd stub_jwt demo_store
     (login_request ''http://localhost:5003/login'' ''nick.gravgaard@example.com'' ''password'')
     = Inr \<lparr>status_code = 200, body = PDict [(''token'', PStr ''token-101'')]\<rparr>
   \<and> (\<exists>u. u \<in> set demo_store \<and> encode stub_jwt (json u) = Inr ''token-101'')
   \<and> profile stub_jwt demo_store
        (profile_request (Some ''token-101'') [] PNone)
     = Inr \<lparr>status_code = 200, body = json nick\<rparr>
   \<and> profile_update stub_jwt demo_store
        (profile_request (Some ''token-101'') ''{}'' (PDict []))
     = (demo_store, Inr \<lparr>status_code = 200, body = json nick\<rparr>)
   \<and> (\<exists>u. u \<in> set demo_store \<and> json nick = json u)"
proof -
  note th = responses_carry_public_fields_only [of nick None stub_pwd stub_jwt demo_store
     "login_request ''http://localhost:5003/login'' ''nick.gravgaard@example.com'' ''password''"]
  note th' = responses_carry_public_fields_only [of nick None stub_pwd stub_jwt demo_store
     "profile_request (Some ''token-101'') [] PNone"]
  note th'' = responses_carry_public_fields_only [of nick None stub_pwd stub_jwt demo_store
     "profile_request (Some ''token-101'') ''{}'' (PDict [])"]
  from th demo_login_nick
  have a: "\<exists>u. u \<in> set demo_store \<and> encode stub_jwt (json u) = Inr ''token-101''"
    by auto
  from th' demo_profile_nick
  have b: "\<exists>u. u \<in> set demo_store \<and> json nick = json u"
    by auto
  from th'' demo_profile_update_nick
  have c: "\<exists>u. u \<in> set demo_store \<and> json nick = json u"
    by auto
  from a b c demo_login_nick demo_profile_nick demo_profile_update_nick show ?thesis by simp
qed

end
